theory Spec2Isabelle
  imports Main
begin

section \<open>Errors and their classification\<close>

text \<open>
  The Go code receives errors from the Kubernetes and Knative clients and classifies them
  with \<open>api_errors.IsNotFound\<close> and \<open>api_errors.IsConflict\<close>; \<open>createService\<close>
  builds one error of its own with \<open>fmt.Errorf\<close>. A Go \<open>error\<close> value that may be
  \<open>nil\<close> is an \<open>error option\<close>; a pair \<open>(value, err)\<close> is a sum \<open>error + value\<close>.
\<close>

datatype reason = ReasonNotFound | ReasonConflict | ReasonAlreadyExists | ReasonOther

datatype error = StatusError reason string | Errorf string


fun IsNotFound :: "error option \<Rightarrow> bool" where
  "IsNotFound (Some (StatusError ReasonNotFound msg)) = True"
| "IsNotFound e = False"

fun IsConflict :: "error option \<Rightarrow> bool" where
  "IsConflict (Some (StatusError ReasonConflict msg)) = True"
| "IsConflict e = False"

section \<open>Resources\<close>

text \<open>
  Every resource embeds the object metadata, as the Go structs do. A Go map may be
  \<open>nil\<close>: \<open>None\<close> is the nil map. Reading a nil map or a missing key gives the zero
  value (the empty string); assigning into a nil map panics.
\<close>

record ObjectMeta =
  Name :: string
  Namespace :: string
  UID :: string
  Labels :: "(string \<rightharpoonup> string) option"
  Annotations :: "(string \<rightharpoonup> string) option"

record Revision = ObjectMeta +
  RevisionSpec :: string
  RevisionStatus :: string

record Service = ObjectMeta +
  ServiceSpec :: string
  LatestCreatedRevisionName :: string

record Configuration = ObjectMeta +
  ConfigurationSpec :: string

record ConfigMap = ObjectMeta +
  Kind :: string
  APIVersion :: string
  Data :: "(string \<rightharpoonup> string) option"

definition map_index :: "(string \<rightharpoonup> string) option \<Rightarrow> string \<Rightarrow> string" where
  "map_index m k = (case m of None \<Rightarrow> '''' | Some f \<Rightarrow> (case f k of None \<Rightarrow> '''' | Some v \<Rightarrow> v))"

definition map_assign ::
  "(string \<rightharpoonup> string) option \<Rightarrow> string \<Rightarrow> string \<Rightarrow> (string \<rightharpoonup> string) option" where
  "map_assign m k v = (case m of None \<Rightarrow> None | Some f \<Rightarrow> Some (f(k \<mapsto> v)))"

definition configurationGeneration :: string where
  "configurationGeneration = ''serving.knative.dev/configurationGeneration''"

section \<open>The clients and the log of their calls\<close>

text \<open>
  The clusters are outside the program. A client is a record of operations on a world
  \<open>'w\<close> that holds both clusters; nothing is assumed about what an operation answers or
  how it changes the world. Every call the program makes is logged with its arguments
  and its answer, and so is every \<open>time.Sleep\<close>, in seconds.
\<close>

record 'w Clientset =
  NamespacesGet :: "string \<Rightarrow> 'w \<Rightarrow> (error + unit) \<times> 'w"
  NamespacesCreate :: "string \<Rightarrow> 'w \<Rightarrow> (error + unit) \<times> 'w"
  ConfigMapsGet :: "string \<Rightarrow> string \<Rightarrow> 'w \<Rightarrow> (error + ConfigMap) \<times> 'w"
  ConfigMapsCreate :: "string \<Rightarrow> ConfigMap \<Rightarrow> 'w \<Rightarrow> (error + ConfigMap) \<times> 'w"

record 'w MigrationClient =
  PrintServiceWithRevisions :: "string \<Rightarrow> 'w \<Rightarrow> error option \<times> 'w"
  ListService :: "'w \<Rightarrow> (error + Service list) \<times> 'w"
  ServiceExists :: "string \<Rightarrow> 'w \<Rightarrow> (error + bool) \<times> 'w"
  GetService :: "string \<Rightarrow> 'w \<Rightarrow> (error + Service) \<times> 'w"
  CreateService :: "Service \<Rightarrow> 'w \<Rightarrow> (error + Service) \<times> 'w"
  DeleteService :: "string \<Rightarrow> 'w \<Rightarrow> error option \<times> 'w"
  ListRevisionByService :: "string \<Rightarrow> 'w \<Rightarrow> (error + Revision list) \<times> 'w"
  GetRevision :: "string \<Rightarrow> 'w \<Rightarrow> (error + Revision) \<times> 'w"
  CreateRevision :: "Revision \<Rightarrow> string \<Rightarrow> 'w \<Rightarrow> (error + Revision) \<times> 'w"
  UpdateRevision :: "Revision \<Rightarrow> 'w \<Rightarrow> error option \<times> 'w"
  GetConfig :: "string \<Rightarrow> 'w \<Rightarrow> (error + Configuration) \<times> 'w"

datatype cluster = Source | Destination

datatype call =
    Call_NamespacesGet string
  | Call_NamespacesCreate string
  | Call_ConfigMapsGet string string
  | Call_ConfigMapsCreate string ConfigMap
  | Call_PrintServiceWithRevisions string
  | Call_ListService
  | Call_ServiceExists string
  | Call_GetService string
  | Call_CreateService Service
  | Call_DeleteService string
  | Call_ListRevisionByService string
  | Call_GetRevision string
  | Call_CreateRevision Revision string
  | Call_UpdateRevision Revision
  | Call_GetConfig string

datatype response =
    Failed error
  | Done
  | GotBool bool
  | GotService Service
  | GotServices "Service list"
  | GotRevision Revision
  | GotRevisions "Revision list"
  | GotConfiguration Configuration
  | GotConfigMap ConfigMap

datatype event = Ev cluster call response | Sleep nat

record 'w state =
  world :: 'w
  trace :: "event list"

definition invoke ::
  "cluster \<Rightarrow> call \<Rightarrow> ('a \<Rightarrow> response) \<Rightarrow> ('w \<Rightarrow> (error + 'a) \<times> 'w) \<Rightarrow> 'w state
     \<Rightarrow> (error + 'a) \<times> 'w state" where
  "invoke cl c enc f s =
     (case f (world s) of
        (r, w') \<Rightarrow>
          (r, \<lparr>world = w',
                trace = trace s @ [Ev cl c (case r of Inl e \<Rightarrow> Failed e | Inr a \<Rightarrow> enc a)]\<rparr>))"

definition invoke_err ::
  "cluster \<Rightarrow> call \<Rightarrow> ('w \<Rightarrow> error option \<times> 'w) \<Rightarrow> 'w state \<Rightarrow> error option \<times> 'w state" where
  "invoke_err cl c f s =
     (case f (world s) of
        (r, w') \<Rightarrow>
          (r, \<lparr>world = w',
                trace = trace s @ [Ev cl c (case r of Some e \<Rightarrow> Failed e | None \<Rightarrow> Done)]\<rparr>))"

definition sleep :: "nat \<Rightarrow> 'w state \<Rightarrow> 'w state" where
  "sleep secs s = s\<lparr>trace := trace s @ [Sleep secs]\<rparr>"

section \<open>Retry bounds\<close>

definition MaxGetRetries :: int where
  "MaxGetRetries = 16"

definition MaxUpdateRetries :: int where
  "MaxUpdateRetries = 16"

section \<open>Replaying one revision\<close>

text \<open>
  A Go function either returns or panics. \<open>migrateRevision\<close> panics when it assigns into
  the nil label map of a fetched revision.
\<close>

datatype 'a outcome = Returned 'a | Panicked string

text \<open>
  The \<open>for\<close> loop of the reconcile branch of \<open>migrateRevision\<close>, with its two counters.
  Each \<open>continue\<close> increments one of them below its bound, so the loop ends.
\<close>

function migrateRevision_loop ::
  "cluster \<Rightarrow> 'w MigrationClient \<Rightarrow> Revision \<Rightarrow> int \<Rightarrow> int \<Rightarrow> 'w state
     \<Rightarrow> error option outcome \<times> 'w state" where
  "migrateRevision_loop cl migrationClient revisionS getRetries updateRetries s =
     (case invoke cl (Call_GetRevision (Name revisionS)) GotRevision
             (GetRevision migrationClient (Name revisionS)) s of
        (Inl err, s1) \<Rightarrow>
          if IsNotFound (Some err) \<and> getRetries < MaxGetRetries
          then migrateRevision_loop cl migrationClient revisionS (getRetries + 1) updateRetries
                 (sleep 1 s1)
          else (Returned (Some err), s1)
      | (Inr revision, s1) \<Rightarrow>
          (let sourceRevisionGeneration = map_index (Labels revisionS) configurationGeneration
           in case map_assign (Labels revision) configurationGeneration sourceRevisionGeneration of
                None \<Rightarrow> (Panicked ''assignment to entry in nil map'', s1)
              | Some labels \<Rightarrow>
                  (case invoke_err cl (Call_UpdateRevision (revision\<lparr>Labels := Some labels\<rparr>))
                          (UpdateRevision migrationClient (revision\<lparr>Labels := Some labels\<rparr>)) s1 of
                     (Some err, s2) \<Rightarrow>
                       if IsConflict (Some err) \<and> updateRetries < MaxUpdateRetries
                       then migrateRevision_loop cl migrationClient revisionS getRetries
                              (updateRetries + 1) s2
                       else (Returned (Some err), s2)
                   | (None, s2) \<Rightarrow> (Returned None, s2))))"
  by pat_completeness auto
termination
  by (relation "measure (\<lambda>(cl, mc, r, g, u, s).
                   nat (MaxGetRetries - g) + nat (MaxUpdateRetries - u))") auto

definition migrateRevision ::
  "cluster \<Rightarrow> 'w MigrationClient \<Rightarrow> Revision \<Rightarrow> Service \<Rightarrow> string \<Rightarrow> string \<Rightarrow> 'w state
     \<Rightarrow> error option outcome \<times> 'w state" where
  "migrateRevision cl migrationClient revisionS serviceS configUuid latestCreatedRevisionName s =
     (if Name revisionS \<noteq> latestCreatedRevisionName
      then (case invoke cl (Call_CreateRevision revisionS configUuid) GotRevision
                   (CreateRevision migrationClient revisionS configUuid) s of
              (Inl err, s1) \<Rightarrow> (Returned (Some err), s1)
            | (Inr created, s1) \<Rightarrow> (Returned None, s1))
      else migrateRevision_loop cl migrationClient revisionS 0 0 s)"

section \<open>Waiting for the configuration\<close>

text \<open>
  The \<open>for\<close> loop of \<open>getConfig\<close>. Its counter \<open>retries\<close> is compared with the bound
  but never incremented, so the loop need not end: the model is a partial function, and
  \<open>None\<close> is the run that never returns.
\<close>

partial_function (option) getConfig_loop ::
  "cluster \<Rightarrow> 'w MigrationClient \<Rightarrow> string \<Rightarrow> int \<Rightarrow> 'w state
     \<Rightarrow> ((error + Configuration) \<times> 'w state) option" where
  "getConfig_loop cl migrationClient serviceName retries s =
     (case invoke cl (Call_GetConfig serviceName) GotConfiguration
             (GetConfig migrationClient serviceName) s of
        (Inl err, s1) \<Rightarrow>
          if IsNotFound (Some err) \<and> retries < MaxGetRetries
          then getConfig_loop cl migrationClient serviceName retries (sleep 1 s1)
          else Some (Inl err, s1)
      | (Inr config, s1) \<Rightarrow> Some (Inr config, s1))"

definition getConfig ::
  "cluster \<Rightarrow> 'w MigrationClient \<Rightarrow> string \<Rightarrow> 'w state
     \<Rightarrow> ((error + Configuration) \<times> 'w state) option" where
  "getConfig cl migrationClient serviceName s = getConfig_loop cl migrationClient serviceName 0 s"

section \<open>Namespace, configmap and service on the destination\<close>

definition getOrCreateNamespace ::
  "cluster \<Rightarrow> 'w Clientset \<Rightarrow> string \<Rightarrow> 'w state \<Rightarrow> error option \<times> 'w state" where
  "getOrCreateNamespace cl clientSet namespace s =
     (case invoke cl (Call_NamespacesGet namespace) (\<lambda>u. Done) (NamespacesGet clientSet namespace) s of
        (r, s1) \<Rightarrow>
          (let err = (case r of Inl e \<Rightarrow> Some e | Inr u \<Rightarrow> None);
               namespaceExists = (if IsNotFound err then False else True)
           in if err \<noteq> None then (err, s1)
              else if \<not> namespaceExists
              then (case invoke cl (Call_NamespacesCreate namespace) (\<lambda>u. Done)
                           (NamespacesCreate clientSet namespace) s1 of
                      (Inl e, s2) \<Rightarrow> (Some e, s2)
                    | (Inr u, s2) \<Rightarrow> (None, s2))
              else (None, s1)))"



text \<open>
  In \<open>createService\<close> the result of \<open>DeleteService\<close> is not assigned: the test that
  follows the call reads \<open>err\<close>, which is still the \<open>nil\<close> of \<open>ServiceExists\<close>.
\<close>

definition createService ::
  "cluster \<Rightarrow> 'w MigrationClient \<Rightarrow> Service \<Rightarrow> bool \<Rightarrow> 'w state \<Rightarrow> error option \<times> 'w state" where
  "createService cl migrationClient service force s =
     (case invoke cl (Call_ServiceExists (Name service)) GotBool
             (ServiceExists migrationClient (Name service)) s of
        (Inl err, s1) \<Rightarrow> (Some err, s1)
      | (Inr serviceExists, s1) \<Rightarrow>
          (let err = (None :: error option)
           in case (if serviceExists
                    then (if \<not> force
                          then Inl (Some (Errorf (''cannot migrate service '' @ Name service @
                                 '' in namespace because the service already exists and no --force option was given'')), s1)
                          else (case invoke_err cl (Call_DeleteService (Name service))
                                       (DeleteService migrationClient (Name service)) s1 of
                                  (discarded, s2) \<Rightarrow> if err \<noteq> None then Inl (err, s2) else Inr s2))
                    else Inr s1) of
                Inl returned \<Rightarrow> returned
              | Inr s2 \<Rightarrow>
                  (case invoke cl (Call_CreateService service) GotService
                          (CreateService migrationClient service) s2 of
                     (Inl e, s3) \<Rightarrow> (Some e, s3)
                   | (Inr created, s3) \<Rightarrow> (None, s3))))"

section \<open>Cleaning the source\<close>




section \<open>The command\<close>





record migrateCmdFlags =
  Namespace :: string
  KubeConfig :: string
  DestinationKubeConfig :: string
  DestinationNamespace :: string
  Force :: bool
  Delete :: bool


section \<open>What a run did: the calls it logged\<close>

text \<open>
  The events a computation added to the log, and an event without its answer.
\<close>

definition emitted :: "'w state \<Rightarrow> 'w state \<Rightarrow> event list" where
  "emitted s s' = drop (length (trace s)) (trace s')"

datatype action = Did cluster call | Slept nat

fun action_of :: "event \<Rightarrow> action" where
  "action_of (Ev cl c r) = Did cl c"
| "action_of (Sleep n) = Slept n"



section \<open>A small scenario\<close>

text \<open>
  Service \<open>foo\<close> with the revisions \<open>foo-00001\<close> (generation 1) and \<open>foo-00002\<close>
  (generation 2, the latest). The world of the scenario counts the updates of a revision
  that were attempted: the first one meets a conflict, the later ones succeed. Other
  scenarios change single operations of this one.
\<close>

definition foo :: Service where
  "foo = \<lparr>Name = ''foo'', Namespace = ''default'', UID = ''uid-foo'', Labels = None,
          Annotations = None, ServiceSpec = ''spec'', LatestCreatedRevisionName = ''foo-00002''\<rparr>"

definition foo_config :: Configuration where
  "foo_config = \<lparr>Name = ''foo'', Namespace = ''default'', UID = ''uid-config'', Labels = None,
                 Annotations = None, ConfigurationSpec = ''spec''\<rparr>"


definition foo_revision :: "string \<Rightarrow> string \<Rightarrow> Revision" where
  "foo_revision name generation =
     \<lparr>Name = name, Namespace = ''default'', UID = ''uid-'' @ name,
      Labels = Some [configurationGeneration \<mapsto> generation], Annotations = None,
      RevisionSpec = ''spec'', RevisionStatus = ''ready''\<rparr>"

definition not_found :: error where
  "not_found = StatusError ReasonNotFound ''not found''"

definition conflict :: error where
  "conflict = StatusError ReasonConflict ''the object has been modified''"

definition refused :: error where
  "refused = StatusError ReasonOther ''connection refused''"

definition demo_clientset :: "nat Clientset" where
  "demo_clientset =
     \<lparr>NamespacesGet = (\<lambda>n w. (Inr (), w)),
      NamespacesCreate = (\<lambda>n w. (Inr (), w)),
      ConfigMapsGet = (\<lambda>ns n w. (Inl not_found, w)),
      ConfigMapsCreate = (\<lambda>ns cm w. (Inr cm, w))\<rparr>"

definition demo_client :: "nat MigrationClient" where
  "demo_client =
     \<lparr>PrintServiceWithRevisions = (\<lambda>n w. (None, w)),
      ListService = (\<lambda>w. (Inr [foo], w)),
      ServiceExists = (\<lambda>n w. (Inr False, w)),
      GetService = (\<lambda>n w. (Inr foo, w)),
      CreateService = (\<lambda>svc w. (Inr svc, w)),
      DeleteService = (\<lambda>n w. (None, w)),
      ListRevisionByService =
        (\<lambda>n w. (Inr [foo_revision ''foo-00001'' ''1'', foo_revision ''foo-00002'' ''2''], w)),
      GetRevision = (\<lambda>n w. (Inr (foo_revision n ''1''), w)),
      CreateRevision = (\<lambda>r u w. (Inr r, w)),
      UpdateRevision = (\<lambda>r w. (if w = 0 then Some conflict else None, Suc w)),
      GetConfig = (\<lambda>n w. (Inr foo_config, w))\<rparr>"

definition start :: "nat state" where
  "start = \<lparr>world = 0, trace = []\<rparr>"

section \<open>The calls of the reconcile loop\<close>

text \<open>
  The sequences of events one run of the loop of \<open>migrateRevision\<close> can log, with the
  outcome of the run: rounds that end in a retry, followed by one last round.
\<close>

inductive reconcile_trace :: "cluster \<Rightarrow> Revision \<Rightarrow> event list \<Rightarrow> error option outcome \<Rightarrow> bool"
  for cl :: cluster and revS :: Revision where
  get_failed:
    "reconcile_trace cl revS [Ev cl (Call_GetRevision (Name revS)) (Failed err)] (Returned (Some err))"
| get_retried:
    "reconcile_trace cl revS evs out \<Longrightarrow>
     reconcile_trace cl revS
       (Ev cl (Call_GetRevision (Name revS)) (Failed err) # Sleep 1 # evs) out"
| nil_labels:
    "Labels r = None \<Longrightarrow>
     reconcile_trace cl revS [Ev cl (Call_GetRevision (Name revS)) (GotRevision r)]
       (Panicked ''assignment to entry in nil map'')"
| updated:
    "Labels r = Some m \<Longrightarrow>
     reconcile_trace cl revS
       [Ev cl (Call_GetRevision (Name revS)) (GotRevision r),
        Ev cl (Call_UpdateRevision (r\<lparr>Labels := Some (m(configurationGeneration \<mapsto>
                 map_index (Labels revS) configurationGeneration))\<rparr>)) Done]
       (Returned None)"
| update_failed:
    "Labels r = Some m \<Longrightarrow>
     reconcile_trace cl revS
       [Ev cl (Call_GetRevision (Name revS)) (GotRevision r),
        Ev cl (Call_UpdateRevision (r\<lparr>Labels := Some (m(configurationGeneration \<mapsto>
                 map_index (Labels revS) configurationGeneration))\<rparr>)) (Failed err)]
       (Returned (Some err))"
| update_retried:
    "Labels r = Some m \<Longrightarrow> reconcile_trace cl revS evs out \<Longrightarrow>
     reconcile_trace cl revS
       (Ev cl (Call_GetRevision (Name revS)) (GotRevision r) #
        Ev cl (Call_UpdateRevision (r\<lparr>Labels := Some (m(configurationGeneration \<mapsto>
                 map_index (Labels revS) configurationGeneration))\<rparr>)) (Failed err) # evs)
       out"




text \<open>The number of times a call was made, whatever the cluster and the answer.\<close>

definition is_call :: "call \<Rightarrow> event \<Rightarrow> bool" where
  "is_call c e = (case action_of e of Did cl c' \<Rightarrow> c' = c | Slept n \<Rightarrow> False)"

definition attempts :: "call \<Rightarrow> event list \<Rightarrow> nat" where
  "attempts c evs = length (filter (is_call c) evs)"

definition demo_reconciled :: "nat state" where
  "demo_reconciled =
     \<lparr>world = 2,
      trace =
        [Ev Destination (Call_GetRevision ''foo-00002'') (GotRevision (foo_revision ''foo-00002'' ''1'')),
         Ev Destination (Call_UpdateRevision (foo_revision ''foo-00002'' ''2'')) (Failed conflict),
         Ev Destination (Call_GetRevision ''foo-00002'') (GotRevision (foo_revision ''foo-00002'' ''1'')),
         Ev Destination (Call_UpdateRevision (foo_revision ''foo-00002'' ''2'')) Done]\<rparr>"

definition demo_panicked :: "nat state" where
  "demo_panicked =
     \<lparr>world = 0,
      trace = [Ev Destination (Call_GetRevision ''foo-00002'')
                 (GotRevision ((foo_revision ''foo-00002'' ''1'')\<lparr>Labels := None\<rparr>))]\<rparr>"

definition nil_labels_client :: "nat MigrationClient" where
  "nil_labels_client = demo_client\<lparr>GetRevision := \<lambda>n w. (Inr ((foo_revision n ''1'')\<lparr>Labels := None\<rparr>), w)\<rparr>"

definition never_found_client :: "nat MigrationClient" where
  "never_found_client = demo_client\<lparr>GetRevision := \<lambda>n w. (Inl not_found, Suc w)\<rparr>"














text \<open>Clusters that fail in one place.\<close>

definition unconfigured_client :: "nat MigrationClient" where
  "unconfigured_client = demo_client\<lparr>GetConfig := \<lambda>n w. (Inl not_found, Suc w)\<rparr>"

definition missing_namespace_clientset :: "nat Clientset" where
  "missing_namespace_clientset = demo_clientset\<lparr>NamespacesGet := \<lambda>n w. (Inl not_found, w)\<rparr>"

definition undeletable_client :: "nat MigrationClient" where
  "undeletable_client =
     demo_client\<lparr>ServiceExists := \<lambda>n w. (Inr True, w), DeleteService := \<lambda>n w. (Some refused, w)\<rparr>"



section \<open>Calls and the log\<close>

declare migrateRevision_loop.simps [simp del]

lemma invoke_eq:
  "invoke cl c enc f s =
     (fst (f (world s)),
      \<lparr>world = snd (f (world s)),
       trace = trace s @ [Ev cl c (case fst (f (world s)) of Inl e \<Rightarrow> Failed e | Inr a \<Rightarrow> enc a)]\<rparr>)"
  by (simp add: invoke_def split: prod.splits)

lemma invoke_err_eq:
  "invoke_err cl c f s =
     (fst (f (world s)),
      \<lparr>world = snd (f (world s)),
       trace = trace s @ [Ev cl c (case fst (f (world s)) of Some e \<Rightarrow> Failed e | None \<Rightarrow> Done)]\<rparr>)"
  by (simp add: invoke_err_def split: prod.splits)

lemma emitted_append: "trace s' = trace s @ evs \<Longrightarrow> emitted s s' = evs"
  by (simp add: emitted_def)

section \<open>The loop of getConfig\<close>

lemma getConfig_loop_never_returns:
  assumes nf: "\<forall>w. \<exists>msg. fst (GetConfig mc n w) = Inl (StatusError ReasonNotFound msg)"
    and lt: "r < MaxGetRetries"
  shows "getConfig_loop cl mc n r s = None"
proof (rule ccontr)
  assume "getConfig_loop cl mc n r s \<noteq> None"
  then obtain y where y: "getConfig_loop cl mc n r s = Some y" by blast
  have "\<not> (mc = mc \<and> n = n \<and> r = r)"
  proof (rule getConfig_loop.raw_induct
      [where P = "\<lambda>cl' mc' n' r' s' y'. \<not> (mc' = mc \<and> n' = n \<and> r' = r)", OF _ y])
    fix f cl' mc' n' r' s' y'
    assume ih: "\<And>cl' mc' n' r' s' y'. f cl' mc' n' r' s' = Some y' \<Longrightarrow> \<not> (mc' = mc \<and> n' = n \<and> r' = r)"
      and body: "(case invoke cl' (Call_GetConfig n') GotConfiguration (GetConfig mc' n') s' of
          (Inl err, s1) \<Rightarrow>
            if IsNotFound (Some err) \<and> r' < MaxGetRetries
            then f cl' mc' n' r' (sleep 1 s1) else Some (Inl err, s1)
        | (Inr config, s1) \<Rightarrow> Some (Inr config, s1)) = Some y'"
    show "\<not> (mc' = mc \<and> n' = n \<and> r' = r)"
    proof
      assume eq: "mc' = mc \<and> n' = n \<and> r' = r"
      from nf obtain msg where "fst (GetConfig mc n (world s')) = Inl (StatusError ReasonNotFound msg)"
        by blast
      with body eq lt obtain s1 where "f cl' mc n r (sleep 1 s1) = Some y'"
        by (simp add: invoke_eq)
      from ih[OF this] show False by simp
    qed
  qed
  then show False by simp
qed


section \<open>The loop of migrateRevision\<close>

lemma loop_notfound:
  assumes nf: "\<forall>w. \<exists>msg. fst (GetRevision mc (Name revS) w) = Inl (StatusError ReasonNotFound msg)"
  shows "g \<le> MaxGetRetries \<Longrightarrow>
     \<exists>err s'. migrateRevision_loop cl mc revS g u s = (Returned (Some err), s') \<and>
       IsNotFound (Some err) \<and>
       (\<exists>evs. trace s' = trace s @ evs \<and> map action_of evs =
         concat (replicate (nat (MaxGetRetries - g)) [Did cl (Call_GetRevision (Name revS)), Slept 1])
           @ [Did cl (Call_GetRevision (Name revS))])"
proof (induction "nat (MaxGetRetries - g)" arbitrary: g s)
  case 0
  from nf obtain msg where m: "fst (GetRevision mc (Name revS) (world s)) = Inl (StatusError ReasonNotFound msg)"
    by blast
  from 0 have "\<not> g < MaxGetRetries" by simp
  with m 0 show ?case
    by (subst migrateRevision_loop.simps) (simp add: invoke_eq)
next
  case (Suc k)
  from nf obtain msg where m: "fst (GetRevision mc (Name revS) (world s)) = Inl (StatusError ReasonNotFound msg)"
    by blast
  from Suc have lt: "g < MaxGetRetries" and k: "k = nat (MaxGetRetries - (g + 1))" and le: "g + 1 \<le> MaxGetRetries"
    by simp_all
  let ?s1 = "sleep 1 \<lparr>world = snd (GetRevision mc (Name revS) (world s)),
       trace = trace s @ [Ev cl (Call_GetRevision (Name revS)) (Failed (StatusError ReasonNotFound msg))]\<rparr>"
  from Suc.hyps(1)[OF k le, of ?s1] obtain err s' evs where
    r: "migrateRevision_loop cl mc revS (g + 1) u ?s1 = (Returned (Some err), s')"
    and e: "IsNotFound (Some err)" and t: "trace s' = trace ?s1 @ evs"
    and a: "map action_of evs =
         concat (replicate k [Did cl (Call_GetRevision (Name revS)), Slept 1])
           @ [Did cl (Call_GetRevision (Name revS))]"
    using k by auto
  have step: "migrateRevision_loop cl mc revS g u s = migrateRevision_loop cl mc revS (g + 1) u ?s1"
    using m lt by (subst migrateRevision_loop.simps) (simp add: invoke_eq)
  have n: "nat (MaxGetRetries - g) = Suc k" using Suc.hyps(2) by simp
  show ?case
    unfolding step n using r e t a
    by (auto simp: sleep_def)
qed

lemma loop_trace:
  "migrateRevision_loop cl mc revS g u s = (out, s') \<Longrightarrow>
     \<exists>evs. trace s' = trace s @ evs \<and> reconcile_trace cl revS evs out"
proof (induction cl mc revS g u s rule: migrateRevision_loop.induct)
  case (1 cl mc revS g u s)
  show ?case
  proof (cases "fst (GetRevision mc (Name revS) (world s))")
    case (Inl err)
    let ?get = "Ev cl (Call_GetRevision (Name revS)) (Failed err)"
    let ?s1 = "\<lparr>world = snd (GetRevision mc (Name revS) (world s)), trace = trace s @ [?get]\<rparr>"
    have i: "invoke cl (Call_GetRevision (Name revS)) GotRevision (GetRevision mc (Name revS)) s = (Inl err, ?s1)"
      using Inl by (simp add: invoke_eq)
    show ?thesis
    proof (cases "IsNotFound (Some err) \<and> g < MaxGetRetries")
      case True
      have "migrateRevision_loop cl mc revS (g + 1) u (sleep 1 ?s1) = (out, s')"
        using "1.prems" i True by (subst (asm) migrateRevision_loop.simps) simp
      from "1.IH"(1)[OF i[symmetric] refl True this] obtain evs where
        "trace s' = trace (sleep 1 ?s1) @ evs" and "reconcile_trace cl revS evs out"
        by blast
      then have "trace s' = trace s @ (?get # Sleep 1 # evs)
          \<and> reconcile_trace cl revS (?get # Sleep 1 # evs) out"
        by (simp add: sleep_def get_retried del: One_nat_def)
      then show ?thesis by blast
    next
      case False
      then have "out = Returned (Some err)" and "s' = ?s1"
        using "1.prems" i by (subst (asm) migrateRevision_loop.simps, auto)+
      then have "trace s' = trace s @ [?get] \<and> reconcile_trace cl revS [?get] out"
        by (simp add: get_failed)
      then show ?thesis by blast
    qed
  next
    case (Inr r)
    let ?get = "Ev cl (Call_GetRevision (Name revS)) (GotRevision r)"
    let ?s1 = "\<lparr>world = snd (GetRevision mc (Name revS) (world s)), trace = trace s @ [?get]\<rparr>"
    have i: "invoke cl (Call_GetRevision (Name revS)) GotRevision (GetRevision mc (Name revS)) s = (Inr r, ?s1)"
      using Inr by (simp add: invoke_eq)
    show ?thesis
    proof (cases "Labels r")
      case None
      then have "out = Panicked ''assignment to entry in nil map''" and "s' = ?s1"
        using "1.prems" i by (subst (asm) migrateRevision_loop.simps, simp add: map_assign_def)+
      then have "trace s' = trace s @ [?get] \<and> reconcile_trace cl revS [?get] out"
        using None by (simp add: nil_labels)
      then show ?thesis by blast
    next
      case (Some m)
      note lab = Some
      let ?r' = "r\<lparr>Labels := Some (m(configurationGeneration \<mapsto> map_index (Labels revS) configurationGeneration))\<rparr>"
      have ma: "map_assign (Labels r) configurationGeneration (map_index (Labels revS) configurationGeneration)
          = Some (m(configurationGeneration \<mapsto> map_index (Labels revS) configurationGeneration))"
        using Some by (simp add: map_assign_def)
      show ?thesis
      proof (cases "fst (UpdateRevision mc ?r' (world ?s1))")
        case None
        let ?upd = "Ev cl (Call_UpdateRevision ?r') Done"
        have "out = Returned None" and "s' = \<lparr>world = snd (UpdateRevision mc ?r' (world ?s1)),
           trace = trace ?s1 @ [?upd]\<rparr>"
          using "1.prems" i ma None
          by (subst (asm) migrateRevision_loop.simps, simp add: invoke_err_eq)+
        then have "trace s' = trace s @ [?get, ?upd] \<and> reconcile_trace cl revS [?get, ?upd] out"
          using lab by (simp add: updated)
        then show ?thesis by blast
      next
        case (Some err)
        let ?upd = "Ev cl (Call_UpdateRevision ?r') (Failed err)"
        let ?s2 = "\<lparr>world = snd (UpdateRevision mc ?r' (world ?s1)), trace = trace ?s1 @ [?upd]\<rparr>"
        have j: "invoke_err cl (Call_UpdateRevision ?r') (UpdateRevision mc ?r') ?s1 = (Some err, ?s2)"
          using Some by (simp add: invoke_err_eq)
        show ?thesis
        proof (cases "IsConflict (Some err) \<and> u < MaxUpdateRetries")
          case True
          have "migrateRevision_loop cl mc revS g (u + 1) ?s2 = (out, s')"
            using "1.prems" i j ma True by (subst (asm) migrateRevision_loop.simps) simp
          from "1.IH"(2)[OF i[symmetric] refl refl ma j[symmetric] refl True this] obtain evs where
            "trace s' = trace ?s2 @ evs" and "reconcile_trace cl revS evs out"
            by blast
          then have "trace s' = trace s @ (?get # ?upd # evs)
              \<and> reconcile_trace cl revS (?get # ?upd # evs) out"
            using lab by (simp add: update_retried)
          then show ?thesis by blast
        next
          case False
          then have "out = Returned (Some err)" and "s' = ?s2"
            using "1.prems" i j ma by (subst (asm) migrateRevision_loop.simps, auto)+
          then have "trace s' = trace s @ [?get, ?upd] \<and> reconcile_trace cl revS [?get, ?upd] out"
            using lab by (simp add: update_failed)
          then show ?thesis by blast
        qed
      qed
    qed
  qed
qed

section \<open>Reading reconcile traces\<close>

lemma reconcile_trace_success:
  "reconcile_trace cl revS evs out \<Longrightarrow> out = Returned None \<Longrightarrow>
     \<exists>pre r m. evs = pre @
        [Ev cl (Call_GetRevision (Name revS)) (GotRevision r),
         Ev cl (Call_UpdateRevision (r\<lparr>Labels := Some (m(configurationGeneration \<mapsto>
                 map_index (Labels revS) configurationGeneration))\<rparr>)) Done]
       \<and> Labels r = Some m"
proof (induction rule: reconcile_trace.induct)
  case (updated r m)
  then show ?case by blast
next
  case (get_retried evs out err)
  then obtain pre r m where "evs = pre @
        [Ev cl (Call_GetRevision (Name revS)) (GotRevision r),
         Ev cl (Call_UpdateRevision (r\<lparr>Labels := Some (m(configurationGeneration \<mapsto>
                 map_index (Labels revS) configurationGeneration))\<rparr>)) Done]" "Labels r = Some m"
    by blast
  then have "Ev cl (Call_GetRevision (Name revS)) (Failed err) # Sleep 1 # evs =
      (Ev cl (Call_GetRevision (Name revS)) (Failed err) # Sleep 1 # pre) @
        [Ev cl (Call_GetRevision (Name revS)) (GotRevision r),
         Ev cl (Call_UpdateRevision (r\<lparr>Labels := Some (m(configurationGeneration \<mapsto>
                 map_index (Labels revS) configurationGeneration))\<rparr>)) Done] \<and> Labels r = Some m"
    by simp
  then show ?case by blast
next
  case (update_retried r0 m0 evs out err)
  then obtain pre r m where "evs = pre @
        [Ev cl (Call_GetRevision (Name revS)) (GotRevision r),
         Ev cl (Call_UpdateRevision (r\<lparr>Labels := Some (m(configurationGeneration \<mapsto>
                 map_index (Labels revS) configurationGeneration))\<rparr>)) Done]" "Labels r = Some m"
    by blast
  then have "Ev cl (Call_GetRevision (Name revS)) (GotRevision r0) #
        Ev cl (Call_UpdateRevision (r0\<lparr>Labels := Some (m0(configurationGeneration \<mapsto>
                 map_index (Labels revS) configurationGeneration))\<rparr>)) (Failed err) # evs =
      (Ev cl (Call_GetRevision (Name revS)) (GotRevision r0) #
        Ev cl (Call_UpdateRevision (r0\<lparr>Labels := Some (m0(configurationGeneration \<mapsto>
                 map_index (Labels revS) configurationGeneration))\<rparr>)) (Failed err) # pre) @
        [Ev cl (Call_GetRevision (Name revS)) (GotRevision r),
         Ev cl (Call_UpdateRevision (r\<lparr>Labels := Some (m(configurationGeneration \<mapsto>
                 map_index (Labels revS) configurationGeneration))\<rparr>)) Done] \<and> Labels r = Some m"
    by simp
  then show ?case by blast
qed simp_all

lemma reconcile_trace_submitted:
  "reconcile_trace cl revS evs out \<Longrightarrow>
     evs = pre @ Ev cl' (Call_UpdateRevision r') resp # post \<Longrightarrow>
     \<exists>pre' r m. pre = pre' @ [Ev cl (Call_GetRevision (Name revS)) (GotRevision r)] \<and>
        Labels r = Some m \<and>
        r' = r\<lparr>Labels := Some (m(configurationGeneration \<mapsto>
                 map_index (Labels revS) configurationGeneration))\<rparr>"
proof (induction arbitrary: pre rule: reconcile_trace.induct)
  case (get_failed err)
  then show ?case by (auto simp: Cons_eq_append_conv)
next
  case (get_retried evs out err)
  from get_retried.prems obtain pre0 where
    "pre = Ev cl (Call_GetRevision (Name revS)) (Failed err) # Sleep 1 # pre0"
    "evs = pre0 @ Ev cl' (Call_UpdateRevision r') resp # post"
    by (auto simp: Cons_eq_append_conv)
  moreover from get_retried.IH[OF this(2)] obtain pre' r m where
    "pre0 = pre' @ [Ev cl (Call_GetRevision (Name revS)) (GotRevision r)]" "Labels r = Some m"
    "r' = r\<lparr>Labels := Some (m(configurationGeneration \<mapsto>
                 map_index (Labels revS) configurationGeneration))\<rparr>"
    by blast
  ultimately have "pre = (Ev cl (Call_GetRevision (Name revS)) (Failed err) # Sleep 1 # pre') @
        [Ev cl (Call_GetRevision (Name revS)) (GotRevision r)]
      \<and> Labels r = Some m \<and> r' = r\<lparr>Labels := Some (m(configurationGeneration \<mapsto>
                 map_index (Labels revS) configurationGeneration))\<rparr>"
    by simp
  then show ?case by blast
next
  case (nil_labels r)
  then show ?case by (auto simp: Cons_eq_append_conv)
next
  case (updated r m)
  let ?g = "Ev cl (Call_GetRevision (Name revS)) (GotRevision r)"
  from updated.prems have "pre = [] @ [?g] \<and> r' = r\<lparr>Labels := Some (m(configurationGeneration \<mapsto>
                 map_index (Labels revS) configurationGeneration))\<rparr>"
    by (auto simp: Cons_eq_append_conv)
  with updated.hyps show ?case by blast
next
  case (update_failed r m err)
  let ?g = "Ev cl (Call_GetRevision (Name revS)) (GotRevision r)"
  from update_failed.prems have "pre = [] @ [?g] \<and> r' = r\<lparr>Labels := Some (m(configurationGeneration \<mapsto>
                 map_index (Labels revS) configurationGeneration))\<rparr>"
    by (auto simp: Cons_eq_append_conv)
  with update_failed.hyps show ?case by blast
next
  case (update_retried r m evs out err)
  let ?g = "Ev cl (Call_GetRevision (Name revS)) (GotRevision r)"
  let ?u = "Ev cl (Call_UpdateRevision (r\<lparr>Labels := Some (m(configurationGeneration \<mapsto>
                 map_index (Labels revS) configurationGeneration))\<rparr>)) (Failed err)"
  from update_retried.prems consider
    (here) "pre = [?g]" "r' = r\<lparr>Labels := Some (m(configurationGeneration \<mapsto>
                 map_index (Labels revS) configurationGeneration))\<rparr>"
    | (later) pre0 where "pre = ?g # ?u # pre0" "evs = pre0 @ Ev cl' (Call_UpdateRevision r') resp # post"
    by (auto simp: Cons_eq_append_conv)
  then show ?case
  proof cases
    case here
    then have "pre = [] @ [?g] \<and> Labels r = Some m \<and> r' = r\<lparr>Labels := Some (m(configurationGeneration \<mapsto>
                 map_index (Labels revS) configurationGeneration))\<rparr>"
      using update_retried.hyps by simp
    then show ?thesis by blast
  next
    case later
    from update_retried.IH[OF later(2)] obtain pre' r0 m0 where
      "pre0 = pre' @ [Ev cl (Call_GetRevision (Name revS)) (GotRevision r0)]" "Labels r0 = Some m0"
      "r' = r0\<lparr>Labels := Some (m0(configurationGeneration \<mapsto>
                 map_index (Labels revS) configurationGeneration))\<rparr>"
      by blast
    then have "pre = (?g # ?u # pre') @ [Ev cl (Call_GetRevision (Name revS)) (GotRevision r0)]
        \<and> Labels r0 = Some m0 \<and> r' = r0\<lparr>Labels := Some (m0(configurationGeneration \<mapsto>
                 map_index (Labels revS) configurationGeneration))\<rparr>"
      using later(1) by simp
    then show ?thesis by blast
  qed
qed

lemma reconcile_trace_panic:
  "reconcile_trace cl revS evs out \<Longrightarrow>
     (\<exists>r. Ev cl (Call_GetRevision (Name revS)) (GotRevision r) \<in> set evs \<and> Labels r = None)
       = (out = Panicked ''assignment to entry in nil map'')"
  by (induction rule: reconcile_trace.induct) auto

lemma reconcile_trace_no_other_panic:
  "reconcile_trace cl revS evs out \<Longrightarrow> out = Panicked msg \<Longrightarrow> msg = ''assignment to entry in nil map''"
  by (induction rule: reconcile_trace.induct) auto





section \<open>One revision\<close>

lemma attempts_actions:
  "attempts c evs =
     length (filter (\<lambda>a. case a of Did cl c' \<Rightarrow> c' = c | Slept n \<Rightarrow> False) (map action_of evs))"
  by (simp add: attempts_def filter_map comp_def is_call_def[abs_def])

lemma count_rounds:
  "P a \<Longrightarrow> \<not> P b \<Longrightarrow> length (filter P (concat (replicate n [a, b]))) = n"
  by (induction n) simp_all

lemma migrateRevision_trace_grows:
  "migrateRevision cl mc revS svc uid latest s = (out, s') \<Longrightarrow> trace s' = trace s @ emitted s s'"
proof (cases "Name revS \<noteq> latest")
  case True
  assume "migrateRevision cl mc revS svc uid latest s = (out, s')"
  with True show ?thesis
    by (auto simp: migrateRevision_def invoke_eq emitted_def split: sum.splits)
next
  case False
  assume "migrateRevision cl mc revS svc uid latest s = (out, s')"
  with False have "migrateRevision_loop cl mc revS 0 0 s = (out, s')"
    by (simp add: migrateRevision_def)
  from loop_trace[OF this] show ?thesis by (auto simp: emitted_def)
qed

lemma migrateRevision_reconcile_trace:
  assumes "migrateRevision cl mc revS svc uid (Name revS) s = (out, s')"
  shows "reconcile_trace cl revS (emitted s s') out"
proof -
  from assms have "migrateRevision_loop cl mc revS 0 0 s = (out, s')"
    by (simp add: migrateRevision_def)
  from loop_trace[OF this] show ?thesis by (auto simp: emitted_def)
qed

lemma demo_reconcile:
  "migrateRevision Destination demo_client (foo_revision ''foo-00002'' ''2'') foo ''uid-config''
     ''foo-00002'' start =
   (Returned None,
    \<lparr>world = 2,
     trace =
       [Ev Destination (Call_GetRevision ''foo-00002'') (GotRevision (foo_revision ''foo-00002'' ''1'')),
        Ev Destination (Call_UpdateRevision (foo_revision ''foo-00002'' ''2'')) (Failed conflict),
        Ev Destination (Call_GetRevision ''foo-00002'') (GotRevision (foo_revision ''foo-00002'' ''1'')),
        Ev Destination (Call_UpdateRevision (foo_revision ''foo-00002'' ''2'')) Done]\<rparr>)"
  by (simp add: migrateRevision_def migrateRevision_loop.simps invoke_eq invoke_err_eq start_def
      demo_client_def foo_revision_def map_index_def map_assign_def conflict_def
      MaxUpdateRetries_def MaxGetRetries_def Let_def numeral_2_eq_2)

lemma demo_nil_labels:
  "migrateRevision Destination nil_labels_client (foo_revision ''foo-00002'' ''2'') foo ''uid-config''
     ''foo-00002'' start =
   (Panicked ''assignment to entry in nil map'',
    \<lparr>world = 0,
     trace = [Ev Destination (Call_GetRevision ''foo-00002'')
                (GotRevision ((foo_revision ''foo-00002'' ''1'')\<lparr>Labels := None\<rparr>))]\<rparr>)"
  by (simp add: migrateRevision_def migrateRevision_loop.simps invoke_eq start_def
      nil_labels_client_def demo_client_def foo_revision_def map_assign_def Let_def)

lemma demo_exhausted:
  "migrateRevision Destination never_found_client (foo_revision ''foo-00002'' ''2'') foo ''uid-config''
     ''foo-00002'' start =
   (Returned (Some not_found),
    \<lparr>world = 17,
     trace = concat (replicate 16 [Ev Destination (Call_GetRevision ''foo-00002'') (Failed not_found), Sleep 1])
               @ [Ev Destination (Call_GetRevision ''foo-00002'') (Failed not_found)]\<rparr>)"
  by (simp add: migrateRevision_def migrateRevision_loop.simps invoke_eq start_def sleep_def
      never_found_client_def demo_client_def foo_revision_def not_found_def MaxGetRetries_def
      eval_nat_numeral)

section \<open>One service\<close>




section \<open>The revisions of a service\<close>











section \<open>The source during and after the migration\<close>











section \<open>The claims\<close>

subsection \<open>C1: two strategies, chosen by the name\<close>



subsection \<open>C2: what the reconcile path writes\<close>

text \<open>
  Claim C2: when \<open>migrateRevision\<close> succeeds on the reconcile path, the last two calls it
  made are a \<open>GetRevision\<close> that returned a revision with a label map and the
  \<open>UpdateRevision\<close> of that very revision with the label
  \<open>serving.knative.dev/configurationGeneration\<close> set to the source revision's value of
  that label (the empty string when the source has none), every other field and label as
  fetched. The same holds of every revision the run submitted to \<open>UpdateRevision\<close>,
  the ones that met a conflict included: each is the revision fetched by the call just
  before it, with that one label overwritten.
\<close>

theorem migrateRevision_reconcile_frame:
  assumes "migrateRevision cl migrationClient revisionS serviceS configUuid (Name revisionS) s
             = (Returned None, s')"
  shows "trace s' = trace s @ emitted s s' \<and>
         (\<exists>pre revision labels.
            emitted s s' = pre @
              [Ev cl (Call_GetRevision (Name revisionS)) (GotRevision revision),
               Ev cl (Call_UpdateRevision
                        (revision\<lparr>Labels := Some (labels(configurationGeneration \<mapsto>
                           map_index (Labels revisionS) configurationGeneration))\<rparr>)) Done] \<and>
            Labels revision = Some labels) \<and>
         (\<forall>pre submitted resp post.
            emitted s s' = pre @ Ev cl (Call_UpdateRevision submitted) resp # post \<longrightarrow>
            (\<exists>pre' revision labels.
               pre = pre' @ [Ev cl (Call_GetRevision (Name revisionS)) (GotRevision revision)] \<and>
               Labels revision = Some labels \<and>
               submitted = revision\<lparr>Labels := Some (labels(configurationGeneration \<mapsto>
                             map_index (Labels revisionS) configurationGeneration))\<rparr>))"
proof -
  note rt = migrateRevision_reconcile_trace[OF assms]
  have a: "trace s' = trace s @ emitted s s'"
    by (rule migrateRevision_trace_grows[OF assms])
  have b: "\<exists>pre revision labels.
            emitted s s' = pre @
              [Ev cl (Call_GetRevision (Name revisionS)) (GotRevision revision),
               Ev cl (Call_UpdateRevision
                        (revision\<lparr>Labels := Some (labels(configurationGeneration \<mapsto>
                           map_index (Labels revisionS) configurationGeneration))\<rparr>)) Done] \<and>
            Labels revision = Some labels"
    by (rule reconcile_trace_success[OF rt refl])
  have c: "\<forall>pre submitted resp post.
            emitted s s' = pre @ Ev cl (Call_UpdateRevision submitted) resp # post \<longrightarrow>
            (\<exists>pre' revision labels.
               pre = pre' @ [Ev cl (Call_GetRevision (Name revisionS)) (GotRevision revision)] \<and>
               Labels revision = Some labels \<and>
               submitted = revision\<lparr>Labels := Some (labels(configurationGeneration \<mapsto>
                             map_index (Labels revisionS) configurationGeneration))\<rparr>)"
    using reconcile_trace_submitted[OF rt] by blast
  from a b c show ?thesis by blast
qed

theorem migrateRevision_reconcile_frame_witness:
  "migrateRevision Destination demo_client (foo_revision ''foo-00002'' ''2'') foo ''uid-config''
     (Name (foo_revision ''foo-00002'' ''2'')) start = (Returned None, demo_reconciled) \<and>
   (\<exists>pre revision labels.
      emitted start demo_reconciled = pre @
        [Ev Destination (Call_GetRevision ''foo-00002'') (GotRevision revision),
         Ev Destination (Call_UpdateRevision
                  (revision\<lparr>Labels := Some (labels(configurationGeneration \<mapsto> ''2''))\<rparr>)) Done] \<and>
      Labels revision = Some labels)"
proof -
  have h: "migrateRevision Destination demo_client (foo_revision ''foo-00002'' ''2'') foo ''uid-config''
     (Name (foo_revision ''foo-00002'' ''2'')) start = (Returned None, demo_reconciled)"
    using demo_reconcile by (simp add: foo_revision_def demo_reconciled_def)
  have g: "map_index (Labels (foo_revision ''foo-00002'' ''2'')) configurationGeneration = ''2''"
    and n: "Name (foo_revision ''foo-00002'' ''2'') = ''foo-00002''"
    by (simp_all add: foo_revision_def map_index_def)
  from migrateRevision_reconcile_frame[OF h] h show ?thesis
    unfolding g n by blast
qed

subsection \<open>C3: a revision that never becomes visible\<close>

text \<open>
  Claim C3, as amended: on the reconcile path, if \<open>GetRevision\<close> answers NotFound on
  every attempt, \<open>migrateRevision\<close> returns the NotFound error of the last attempt after
  exactly \<open>MaxGetRetries + 1\<close> attempts, the first one and \<open>MaxGetRetries\<close> retries,
  with a sleep of one second between two consecutive attempts and no other call.
\<close>

theorem migrateRevision_get_exhausted:
  assumes "\<forall>w. \<exists>msg. fst (GetRevision migrationClient (Name revisionS) w)
                     = Inl (StatusError ReasonNotFound msg)"
  shows "\<exists>err s'.
           migrateRevision cl migrationClient revisionS serviceS configUuid (Name revisionS) s
             = (Returned (Some err), s') \<and>
           IsNotFound (Some err) \<and>
           trace s' = trace s @ emitted s s' \<and>
           map action_of (emitted s s') =
             concat (replicate (nat MaxGetRetries)
                       [Did cl (Call_GetRevision (Name revisionS)), Slept 1])
               @ [Did cl (Call_GetRevision (Name revisionS))] \<and>
           attempts (Call_GetRevision (Name revisionS)) (emitted s s') = nat MaxGetRetries + 1"
proof -
  from loop_notfound[OF assms, of 0 cl 0 s] obtain err s' evs where
    r: "migrateRevision_loop cl migrationClient revisionS 0 0 s = (Returned (Some err), s')"
    and e: "IsNotFound (Some err)" and t: "trace s' = trace s @ evs"
    and a: "map action_of evs =
         concat (replicate (nat MaxGetRetries) [Did cl (Call_GetRevision (Name revisionS)), Slept 1])
           @ [Did cl (Call_GetRevision (Name revisionS))]"
    by (auto simp: MaxGetRetries_def)
  have m: "migrateRevision cl migrationClient revisionS serviceS configUuid (Name revisionS) s
             = (Returned (Some err), s')"
    using r by (simp add: migrateRevision_def)
  have em: "emitted s s' = evs" using t by (rule emitted_append)
  have n: "attempts (Call_GetRevision (Name revisionS)) evs = nat MaxGetRetries + 1"
    unfolding attempts_actions a by (simp add: count_rounds)
  from m e t a n em show ?thesis by simp
qed

theorem migrateRevision_get_exhausted_witness:
  "(\<forall>w. \<exists>msg. fst (GetRevision never_found_client (Name (foo_revision ''foo-00002'' ''2'')) w)
                     = Inl (StatusError ReasonNotFound msg)) \<and>
   (\<exists>err s'.
      migrateRevision Destination never_found_client (foo_revision ''foo-00002'' ''2'') foo
          ''uid-config'' (Name (foo_revision ''foo-00002'' ''2'')) start
        = (Returned (Some err), s') \<and>
      attempts (Call_GetRevision (Name (foo_revision ''foo-00002'' ''2''))) (emitted start s')
        = nat MaxGetRetries + 1)"
proof -
  have h: "\<forall>w. \<exists>msg. fst (GetRevision never_found_client (Name (foo_revision ''foo-00002'' ''2'')) w)
                     = Inl (StatusError ReasonNotFound msg)"
    by (simp add: never_found_client_def not_found_def)
  from migrateRevision_get_exhausted[OF h, of Destination foo "''uid-config''" start] h
  show ?thesis by blast
qed

text \<open>
  The claim as stated, exactly \<open>MaxGetRetries\<close> attempts, fails: with the bound at 16
  the revision is fetched 17 times.
\<close>

theorem migrateRevision_get_attempts_counterexample:
  "fst (migrateRevision Destination never_found_client (foo_revision ''foo-00002'' ''2'') foo
          ''uid-config'' ''foo-00002'' start) = Returned (Some not_found) \<and>
   IsNotFound (Some not_found) \<and>
   attempts (Call_GetRevision ''foo-00002'')
     (emitted start (snd (migrateRevision Destination never_found_client
        (foo_revision ''foo-00002'' ''2'') foo ''uid-config'' ''foo-00002'' start))) = 17 \<and>
   MaxGetRetries = 16"
  unfolding demo_exhausted
  by (simp add: emitted_def start_def attempts_def is_call_def count_rounds not_found_def
      MaxGetRetries_def)

subsection \<open>C4: getConfig and a configuration that never appears\<close>

text \<open>
  Claim C4 says that \<open>getConfig\<close> terminates for every behaviour of \<open>GetConfig\<close>, giving
  up after 16 attempts when every attempt is answered NotFound. The loop compares
  \<open>retries\<close> with \<open>MaxGetRetries\<close> but never increments it: when every attempt is
  answered NotFound, \<open>getConfig\<close> does not return.
\<close>

theorem getConfig_not_found_forever:
  assumes "\<forall>w. \<exists>msg. fst (GetConfig migrationClient serviceName w) = Inl (StatusError ReasonNotFound msg)"
  shows "getConfig cl migrationClient serviceName s = None"
  unfolding getConfig_def
  by (rule getConfig_loop_never_returns [OF assms]) (simp add: MaxGetRetries_def)

theorem getConfig_not_found_forever_witness:
  "getConfig Destination unconfigured_client ''foo'' start = None"
  using getConfig_not_found_forever
    [of unconfigured_client "''foo''" Destination start]
  by (simp add: unconfigured_client_def not_found_def)

subsection \<open>C5: the destination namespace\<close>

text \<open>
  Claim C5 says that \<open>getOrCreateNamespace\<close> creates a missing namespace and returns
  \<open>nil\<close>. The function notes the NotFound answer in \<open>namespaceExists\<close> and then returns
  every error of the lookup, NotFound included: for a missing namespace it returns the
  NotFound error after the one lookup, and the create is never called.
\<close>

theorem getOrCreateNamespace_missing_namespace:
  assumes "NamespacesGet clientSet namespace (world s) = (Inl err, w')"
    and "IsNotFound (Some err)"
  shows "getOrCreateNamespace cl clientSet namespace s =
           (Some err, \<lparr>world = w', trace = trace s @ [Ev cl (Call_NamespacesGet namespace) (Failed err)]\<rparr>)"
  using assms by (simp add: getOrCreateNamespace_def invoke_eq)

theorem getOrCreateNamespace_missing_namespace_witness:
  "getOrCreateNamespace Destination
     missing_namespace_clientset ''default'' start =
   (Some not_found,
    \<lparr>world = 0, trace = [Ev Destination (Call_NamespacesGet ''default'') (Failed not_found)]\<rparr>)"
  using getOrCreateNamespace_missing_namespace
    [of missing_namespace_clientset "''default''" start
        not_found 0 Destination]
  by (simp add: missing_namespace_clientset_def start_def not_found_def)

subsection \<open>C6: a service that exists on the destination, without force\<close>




subsection \<open>C7: replacing a service that exists\<close>

text \<open>
  Claim C7 says that under force-replace a failed delete of the existing destination
  service aborts \<open>createService\<close> before the create. The result of \<open>DeleteService\<close> is
  dropped, and the test after it reads the \<open>nil\<close> error of \<open>ServiceExists\<close>: after a
  failed delete the create is attempted all the same, and its result is what
  \<open>createService\<close> returns.
\<close>

theorem createService_failed_delete_is_ignored:
  assumes "ServiceExists migrationClient (Name service) (world s) = (Inr True, w1)"
    and "DeleteService migrationClient (Name service) w1 = (Some err, w2)"
    and "CreateService migrationClient service w2 = (created, w3)"
  shows "createService cl migrationClient service True s =
           ((case created of Inl e \<Rightarrow> Some e | Inr svc \<Rightarrow> None),
            \<lparr>world = w3,
             trace = trace s @
               [Ev cl (Call_ServiceExists (Name service)) (GotBool True),
                Ev cl (Call_DeleteService (Name service)) (Failed err),
                Ev cl (Call_CreateService service)
                  (case created of Inl e \<Rightarrow> Failed e | Inr svc \<Rightarrow> GotService svc)]\<rparr>)"
  using assms by (simp add: createService_def invoke_eq invoke_err_eq split: sum.splits)

theorem createService_failed_delete_is_ignored_witness:
  "createService Destination
     undeletable_client foo True start =
   (None,
    \<lparr>world = 0,
     trace = [Ev Destination (Call_ServiceExists ''foo'') (GotBool True),
              Ev Destination (Call_DeleteService ''foo'') (Failed refused),
              Ev Destination (Call_CreateService foo) (GotService foo)]\<rparr>)"
  using createService_failed_delete_is_ignored
    [of undeletable_client
        foo start 0 refused 0 "Inr foo" 0 Destination]
  by (simp add: undeletable_client_def start_def demo_client_def foo_def)

subsection \<open>C8: creating a revision\<close>




subsection \<open>C9: the source is cleaned last\<close>



subsection \<open>C10: a fetched revision without labels\<close>

text \<open>
  Claim C10: on the reconcile path \<open>migrateRevision\<close> assigns into the label map of the
  fetched revision without testing it. The run panics with "assignment to entry in nil
  map" exactly when a \<open>GetRevision\<close> of the run returned a revision whose label map
  is \<open>nil\<close>, and it panics in no other way: a run that returns, with an error or
  without, fetched only revisions that carry a label map.
\<close>

theorem migrateRevision_nil_labels_panic:
  assumes "migrateRevision cl migrationClient revisionS serviceS configUuid (Name revisionS) s = (out, s')"
  shows "((\<exists>revision. Ev cl (Call_GetRevision (Name revisionS)) (GotRevision revision) \<in> set (emitted s s')
             \<and> Labels revision = None)
          = (out = Panicked ''assignment to entry in nil map'')) \<and>
         (\<forall>msg. out = Panicked msg \<longrightarrow> msg = ''assignment to entry in nil map'')"
  using reconcile_trace_panic[OF migrateRevision_reconcile_trace[OF assms]]
    reconcile_trace_no_other_panic[OF migrateRevision_reconcile_trace[OF assms]]
  by blast

theorem migrateRevision_nil_labels_panic_witness:
  "migrateRevision Destination nil_labels_client (foo_revision ''foo-00002'' ''2'') foo ''uid-config''
     (Name (foo_revision ''foo-00002'' ''2'')) start =
     (Panicked ''assignment to entry in nil map'', demo_panicked) \<and>
   (\<exists>revision. Ev Destination (Call_GetRevision ''foo-00002'') (GotRevision revision)
        \<in> set (emitted start demo_panicked) \<and> Labels revision = None)"
proof -
  have h: "migrateRevision Destination nil_labels_client (foo_revision ''foo-00002'' ''2'') foo ''uid-config''
     (Name (foo_revision ''foo-00002'' ''2'')) start =
     (Panicked ''assignment to entry in nil map'', demo_panicked)"
    using demo_nil_labels by (simp add: foo_revision_def demo_panicked_def)
  have n: "Name (foo_revision ''foo-00002'' ''2'') = ''foo-00002''"
    by (simp add: foo_revision_def)
  from migrateRevision_nil_labels_panic[OF h] h show ?thesis
    unfolding n by blast
qed

end
